theory Spec2Isabelle
  imports Complex_Main "HOL-Library.Sublist"
begin

section \<open>Common Python notions\<close>

text \<open>
  Python strings are modelled as \<open>string\<close>; a character stands for one code point, so
  \<open>length\<close> is Python's \<open>len\<close>. Exceptions are values of the type \<open>error\<close>, and a
  computation that may raise has a result of type \<open>error + 'a\<close>. The \<open>except\<close> clauses
  of the source select on the class of the exception, wherever in the \<open>try\<close> block it
  was raised, so the class is kept in the value.
\<close>

datatype error =
    JSONDecodeError
  | AttributeError
  | TypeError
  | ValueError string
  | OSError string
  | RequestException string
  | OtherException string

text \<open>The values produced by \<open>json.loads\<close> and passed around as untyped records.\<close>

datatype json =
    JNull
  | JBool bool
  | JInt int
  | JFloat rat
  | JStr string
  | JArr "json list"
  | JObj "(string \<times> json) list"

text \<open>\<open>needle in haystack\<close> for strings.\<close>

fun py_in :: "string \<Rightarrow> string \<Rightarrow> bool" where
  "py_in pat [] = (pat = [])"
| "py_in pat (c # cs) = (prefix pat (c # cs) \<or> py_in pat cs)"

text \<open>
  \<open>s.replace(old, new)\<close> for a non-empty \<open>old\<close>: non-overlapping occurrences, leftmost
  first. (The source only calls it with non-empty literals.)
\<close>

function replace :: "string \<Rightarrow> string \<Rightarrow> string \<Rightarrow> string" where
  "replace old new [] = []"
| "replace old new (c # cs) =
     (if old \<noteq> [] \<and> prefix old (c # cs)
      then new @ replace old new (drop (length old) (c # cs))
      else c # replace old new cs)"
  by pat_completeness auto
termination
  by (relation "measure (\<lambda>(old, new, s). length s)") (auto simp: neq_Nil_conv)

text \<open>The characters \<open>str.strip()\<close> removes, among the code points below 256.\<close>

definition is_space :: "char \<Rightarrow> bool" where
  "is_space c \<longleftrightarrow> (of_char c :: nat) \<in> {9, 10, 11, 12, 13, 28, 29, 30, 31, 32, 133, 160}"

definition strip :: "string \<Rightarrow> string" where
  "strip s = rev (dropWhile is_space (rev (dropWhile is_space s)))"

section \<open>The Extractor: \<open>utils/agent.py\<close>\<close>

definition clean_json_string :: "string \<Rightarrow> string" where
  "clean_json_string json_string =
     strip (if py_in ''```'' json_string
            then replace ''```'' '''' (replace ''```json'' '''' json_string)
            else json_string)"

text \<open>The record returned by the \<open>except json.JSONDecodeError\<close> clause.\<close>

definition placeholder_record :: "(string \<times> json) list" where
  "placeholder_record =
     [(''company_name'', JStr ''Unknown''),
      (''company_codename'', JStr ''Project Error''),
      (''sector'', JStr ''Error''),
      (''business_overview'', JArr [JStr ''AI could not process data.'']),
      (''product_portfolio'', JArr []),
      (''applications'', JArr []),
      (''financials'', JObj []),
      (''assumptions'', JStr ''N/A''),
      (''metrics_point'', JStr ''N/A''),
      (''upcoming_facility'', JStr ''N/A''),
      (''sales'', JStr ''N/A''),
      (''global_presence'', JStr ''N/A''),
      (''investment_highlights'', JArr [])]"

text \<open>
  The two \<open>except\<close> clauses of \<open>analyze_data\<close>, in the order of the source: a
  \<open>json.JSONDecodeError\<close> gives the placeholder, any other exception gives \<open>None\<close>.
\<close>

definition analyze_handler :: "error \<Rightarrow> json option" where
  "analyze_handler e = (if e = JSONDecodeError then Some (JObj placeholder_record) else None)"

text \<open>
  \<open>analyze_data\<close>. The parameters are the two library calls of the \<open>try\<close> block:
  \<open>invoke\<close> is \<open>chain.invoke\<close> followed by the selection of the reply's text, and
  \<open>loads\<close> is \<open>json.loads\<close>, which raises \<open>JSONDecodeError\<close> on a text that is not a
  valid JSON document (and, in CPython, \<open>RecursionError\<close> on a text nested too deeply,
  valid or not). The result \<open>None\<close> is Python's \<open>None\<close>. After parsing, the source
  evaluates \<open>data.get('company_codename')\<close> for its log line, which raises
  \<open>AttributeError\<close> unless \<open>data\<close> is a dict.
\<close>

definition analyze_data ::
  "(string \<Rightarrow> error + string) \<Rightarrow> (string \<Rightarrow> error + json) \<Rightarrow> string \<Rightarrow> json option" where
  "analyze_data invoke loads raw_text =
     (case invoke raw_text of
        Inl e \<Rightarrow> analyze_handler e
      | Inr content \<Rightarrow>
          (case loads (clean_json_string content) of
             Inl e \<Rightarrow> analyze_handler e
           | Inr data \<Rightarrow>
               (case data of
                  JObj kvs \<Rightarrow> Some data
                | _ \<Rightarrow> analyze_handler AttributeError)))"

text \<open>\<open>d.get(key)\<close> on a JSON value that is a dict.\<close>

fun dict_get :: "json \<Rightarrow> string \<Rightarrow> json option" where
  "dict_get (JObj kvs) k = map_of kvs k"
| "dict_get _ k = None"

section \<open>Web enrichment: \<open>utils/web_search.py\<close>\<close>

text \<open>
  \<open>web_search.py\<close> has its own copy of \<open>clean_json_string\<close>, the same text as the one
  of \<open>agent.py\<close>; the definition above stands for both.
\<close>

definition generate_fallback_queries :: "string \<Rightarrow> string list" where
  "generate_fallback_queries search_type =
     (case map_of
        [(''images'', [''generic manufacturing products stock photo'', ''industrial facility interior'']),
         (''certifications'', [''ISO 9001 certification'', ''industry certifications'']),
         (''business_info'', [''industry market trends'', ''sector growth analysis'']),
         (''partners'', [''business partnerships'', ''industry collaborations''])]
        search_type of
        Some qs \<Rightarrow> qs
      | None \<Rightarrow> [''general search''])"

text \<open>
  \<open>generate_search_queries\<close>. \<open>invoke\<close> is \<open>chain.invoke\<close> on the company name, the
  truncated data and the search type, followed by the selection of the reply's text;
  \<open>loads\<close> is \<open>json.loads\<close>. The \<open>try\<close> block has the single clause
  \<open>except Exception\<close>, which returns the fallback list. The result is a list of JSON
  values: the source returns the parsed array's elements as they are.
\<close>

definition generate_search_queries ::
  "(string \<Rightarrow> string \<Rightarrow> string \<Rightarrow> error + string) \<Rightarrow> (string \<Rightarrow> error + json) \<Rightarrow>
   string \<Rightarrow> string \<Rightarrow> string \<Rightarrow> json list" where
  "generate_search_queries invoke loads company_name company_data search_type =
     (let truncated_data =
            (if length company_data > 2000 then take 2000 company_data else company_data)
      in case invoke company_name truncated_data search_type of
           Inl e \<Rightarrow> map JStr (generate_fallback_queries search_type)
         | Inr content \<Rightarrow>
             (case loads (clean_json_string content) of
                Inl e \<Rightarrow> map JStr (generate_fallback_queries search_type)
              | Inr queries \<Rightarrow>
                  (case queries of
                     JArr qs \<Rightarrow>
                       if length qs > 0 then take 5 qs
                       else map JStr (generate_fallback_queries search_type)
                   | _ \<Rightarrow> map JStr (generate_fallback_queries search_type))))"

text \<open>One result of a text search: the values under \<open>'title'\<close>, \<open>'body'\<close>, \<open>'href'\<close>.\<close>

record search_result =
  title :: json
  body :: json
  href :: json

text \<open>\<open>item.get(key, '')\<close> on an item that is a dict.\<close>

definition get_or_empty :: "(string \<times> json) list \<Rightarrow> string \<Rightarrow> json" where
  "get_or_empty kvs k = (case map_of kvs k of Some v \<Rightarrow> v | None \<Rightarrow> JStr [])"

fun is_dict :: "json \<Rightarrow> bool" where
  "is_dict (JObj kvs) = True"
| "is_dict _ = False"

fun tavily_item :: "json \<Rightarrow> search_result" where
  "tavily_item (JObj kvs) =
     \<lparr>title = get_or_empty kvs ''title'', body = get_or_empty kvs ''content'',
      href = get_or_empty kvs ''url''\<rparr>"
| "tavily_item _ = \<lparr>title = JStr [], body = JStr [], href = JStr []\<rparr>"

text \<open>
  \<open>search_text_tavily\<close>. \<open>api_key\<close> is the value of the environment variable
  (\<open>None\<close> when unset), \<open>post\<close> is \<open>requests.post\<close> with \<open>raise_for_status\<close> and
  \<open>response.json()\<close>. Both \<open>except\<close> clauses return the empty list, also when the
  loop over the results raises on an item that is not a dict (\<open>tavily_item\<close> is only
  applied when every item is one) or on a response that is not a dict or whose
  \<open>'results'\<close> cannot be looped over as dicts.
\<close>

definition search_text_tavily ::
  "string option \<Rightarrow> (string \<Rightarrow> json \<Rightarrow> nat \<Rightarrow> error + json) \<Rightarrow> json \<Rightarrow> nat \<Rightarrow> search_result list" where
  "search_text_tavily api_key post query max_results =
     (case api_key of
        None \<Rightarrow> []
      | Some key \<Rightarrow>
          if key = [] then []
          else
            (case post key query max_results of
               Inl e \<Rightarrow> []
             | Inr data \<Rightarrow>
                 (case data of
                    JObj kvs \<Rightarrow>
                      (case map_of kvs ''results'' of
                         None \<Rightarrow> []
                       | Some (JArr items) \<Rightarrow>
                           if list_all is_dict items then map tavily_item items else []
                       | Some _ \<Rightarrow> [])
                  | _ \<Rightarrow> [])))"













section \<open>Paths: the functions of \<open>os.path\<close> the source calls\<close>

text \<open>
  \<open>os.path\<close> is taken to be \<open>posixpath\<close>. \<open>join2\<close> is one step of \<open>os.path.join\<close>,
  \<open>split_head\<close> and \<open>basename\<close> are the two parts of the path at its last slash.
\<close>

definition join2 :: "string \<Rightarrow> string \<Rightarrow> string" where
  "join2 a b =
     (if prefix ''/'' b then b
      else if a = [] \<or> last a = CHR ''/'' then a @ b
      else a @ ''/'' @ b)"

definition path_join :: "string \<Rightarrow> string list \<Rightarrow> string" where
  "path_join a ps = foldl join2 a ps"





text \<open>\<open>str(n)\<close> for a natural number, as the f-string of the source formats the counter.\<close>

fun str_nat :: "nat \<Rightarrow> string" where
  "str_nat n =
     (if n < 10 then [''0123456789'' ! n]
      else str_nat (n div 10) @ [''0123456789'' ! (n mod 10)])"

declare str_nat.simps [simp del]

definition endswith :: "string \<Rightarrow> string \<Rightarrow> bool" where
  "endswith s e \<longleftrightarrow> length e \<le> length s \<and> drop (length s - length e) s = e"

definition nl :: string where
  "nl = [CHR 0x0A]"

section \<open>The Ingestor: \<open>utils/ingestor.py\<close>\<close>

text \<open>
  What the ingestor reads of the file system: \<open>os.path.exists\<close>, \<open>os.listdir\<close>,
  \<open>f.read()\<close> of a text file, the texts of the pages of a PDF (\<open>None\<close> for a page
  without text), and the sheets of a workbook, each with its name and the text of its
  table. A call that raises gives \<open>Inl\<close>.
\<close>

record filesystem =
  path_exists :: "string \<Rightarrow> bool"
  listdir :: "string \<Rightarrow> error + string list"
  read_text :: "string \<Rightarrow> error + string"
  pdf_pages :: "string \<Rightarrow> error + string option list"
  excel_sheets :: "string \<Rightarrow> error + (string \<times> (error + string)) list"

text \<open>The text of a PDF: the non-empty page texts, each followed by a newline.\<close>

fun pdf_text :: "string option list \<Rightarrow> string" where
  "pdf_text [] = []"
| "pdf_text (None # pages) = pdf_text pages"
| "pdf_text (Some page_text # pages) =
     (if page_text = [] then pdf_text pages else page_text @ nl @ pdf_text pages)"

text \<open>
  The loop over the sheets of a workbook. A sheet that cannot be read raises; the
  \<open>except\<close> clause of the file ends the loop, and the sheets appended before stay.
\<close>

fun ingest_sheets :: "string \<Rightarrow> (string \<times> (error + string)) list \<Rightarrow> string \<Rightarrow> string" where
  "ingest_sheets filename [] combined_text = combined_text"
| "ingest_sheets filename ((sheet_name, Inl e) # sheets) combined_text = combined_text"
| "ingest_sheets filename ((sheet_name, Inr table_text) # sheets) combined_text =
     ingest_sheets filename sheets
       (combined_text @ nl @ nl @ ''--- FILE: '' @ filename @ '' | SHEET: '' @ sheet_name
          @ '' ---'' @ nl @ table_text)"

text \<open>The body of the loop over the directory entries, for one entry.\<close>

definition ingest_file ::
  "filesystem \<Rightarrow> (string \<Rightarrow> string) \<Rightarrow> string \<Rightarrow> string \<Rightarrow> string \<Rightarrow> string" where
  "ingest_file fs lower folder_path filename combined_text =
     (let file_path = join2 folder_path filename
      in if prefix ''.'' filename then combined_text
         else if endswith (lower filename) ''.txt'' \<or> endswith (lower filename) ''.md'' then
           (case read_text fs file_path of
              Inl e \<Rightarrow> combined_text
            | Inr content \<Rightarrow>
                combined_text @ nl @ nl @ ''--- FILE: '' @ filename @ '' ---'' @ nl @ content)
         else if endswith (lower filename) ''.pdf'' then
           (case pdf_pages fs file_path of
              Inl e \<Rightarrow> combined_text
            | Inr pages \<Rightarrow>
                combined_text @ nl @ nl @ ''--- FILE: '' @ filename @ '' (PDF Content) ---'' @ nl
                  @ pdf_text pages)
         else if endswith (lower filename) ''.xlsx'' \<or> endswith (lower filename) ''.xls'' then
           (case excel_sheets fs file_path of
              Inl e \<Rightarrow> combined_text
            | Inr sheets \<Rightarrow> ingest_sheets filename sheets combined_text)
         else combined_text)"

definition ingest_company_data ::
  "filesystem \<Rightarrow> (string \<Rightarrow> string) \<Rightarrow> string \<Rightarrow> error + string" where
  "ingest_company_data fs lower folder_path =
     (if path_exists fs folder_path then
        (case listdir fs folder_path of
           Inl e \<Rightarrow> Inl e
         | Inr files \<Rightarrow>
             if files = [] then Inr ''Warning: No files found in this folder.''
             else Inr (foldl (\<lambda>combined_text filename.
                                ingest_file fs lower folder_path filename combined_text)
                         [] files))
      else Inr (''Error: Folder not found at '' @ folder_path))"

section \<open>The Generator: \<open>utils/generator.py\<close>\<close>














section \<open>The orchestrator: \<open>main.py\<close>\<close>

text \<open>
  The run of the pipeline is the list of what it does that can be seen from outside: the
  lines it prints (a message stands for the line, \<open>Separator\<close> for the line of 50
  equals signs) and the calls it makes to the four stages.
\<close>

datatype message =
    Starting string
  | Separator
  | StepIngesting string
  | CriticalNoText
  | Extracted nat
  | StepAnalysis
  | CriticalAgentFailed
  | AnalysisComplete json
  | StepWebSearch
  | WebSearchComplete
  | WebSearchError error
  | ContinuingWithoutWebData
  | StepGenerating
  | PptSaved
  | GeneratorError error
  | PipelineComplete string

datatype event =
    Print message
  | CallIngest string
  | CallAnalyze string
  | CallWebSearch json string
  | CallGenerator json string

text \<open>Python's truth value of a JSON value, as \<open>if not structured_data\<close> takes it.\<close>

fun truthy :: "json \<Rightarrow> bool" where
  "truthy JNull = False"
| "truthy (JBool b) = b"
| "truthy (JInt i) = (i \<noteq> 0)"
| "truthy (JFloat x) = (x \<noteq> 0)"
| "truthy (JStr s) = (s \<noteq> [])"
| "truthy (JArr xs) = (xs \<noteq> [])"
| "truthy (JObj kvs) = (kvs \<noteq> [])"

text \<open>\<open>d[key] = value\<close> on a dict: the place of an existing key is kept.\<close>

fun dict_set :: "(string \<times> json) list \<Rightarrow> string \<Rightarrow> json \<Rightarrow> (string \<times> json) list" where
  "dict_set [] k v = [(k, v)]"
| "dict_set ((k', v') # kvs) k v = (if k' = k then (k, v) # kvs else (k', v') # dict_set kvs k v)"

definition empty_web_data :: json where
  "empty_web_data =
     JObj [(''images'', JArr []), (''certifications'', JArr []), (''business_info'', JObj []),
           (''citations'', JArr [])]"

text \<open>
  Steps 3 and 4 of \<open>run_pipeline\<close>, on the record of the Extractor. \<open>web\<close> is
  \<open>get_web_data_for_company\<close> and \<open>create\<close> is \<open>create_presentation\<close>.
\<close>

definition web_and_generate ::
  "(json \<Rightarrow> string \<Rightarrow> error + json) \<Rightarrow> (json \<Rightarrow> string \<Rightarrow> error + unit) \<Rightarrow>
   (string \<times> json) list \<Rightarrow> json \<Rightarrow> string \<Rightarrow> string \<Rightarrow> event list" where
  "web_and_generate web create kvs company_name raw_text output_pptx_path =
     (let web_events_and_data =
            (case web company_name raw_text of
               Inr web_data \<Rightarrow> ([Print WebSearchComplete], dict_set kvs ''web_data'' web_data)
             | Inl e \<Rightarrow>
                 ([Print (WebSearchError e), Print ContinuingWithoutWebData],
                  dict_set kvs ''web_data'' empty_web_data));
          structured_data = JObj (snd web_events_and_data)
      in [Print StepWebSearch, CallWebSearch company_name raw_text]
         @ fst web_events_and_data
         @ [Print StepGenerating, CallGenerator structured_data output_pptx_path]
         @ (case create structured_data output_pptx_path of
              Inr u \<Rightarrow> [Print PptSaved, Print Separator, Print (PipelineComplete output_pptx_path),
                        Print Separator]
            | Inl e \<Rightarrow> [Print (GeneratorError e)]))"

text \<open>
  \<open>run_pipeline\<close>. \<open>base_dir\<close> is \<open>os.getcwd()\<close>. The result is the list of events
  and, when an exception leaves \<open>run_pipeline\<close>, that exception: \<open>os.listdir\<close> in the
  ingestor is not inside a \<open>try\<close>. (\<open>analyze_data\<close> returns a dict or \<open>None\<close>; the
  case of another value is there to make the case distinction complete, \<open>.get\<close>
  would raise on it.) The creation of the output directory is left out.
\<close>

definition run_pipeline ::
  "filesystem \<Rightarrow> (string \<Rightarrow> string) \<Rightarrow> (string \<Rightarrow> error + string) \<Rightarrow> (string \<Rightarrow> error + json) \<Rightarrow>
   (json \<Rightarrow> string \<Rightarrow> error + json) \<Rightarrow> (json \<Rightarrow> string \<Rightarrow> error + unit) \<Rightarrow>
   string \<Rightarrow> string \<Rightarrow> event list \<times> error option" where
  "run_pipeline fs lower invoke loads web create base_dir company_folder_name =
     (let input_dir = path_join base_dir [''data'', ''input'', company_folder_name];
          output_dir = path_join base_dir [''data'', ''output''];
          output_pptx_path = join2 output_dir (company_folder_name @ ''_Teaser.pptx'');
          start = [Print (Starting company_folder_name), Print Separator,
                   Print (StepIngesting input_dir),
                   CallIngest input_dir]
      in case ingest_company_data fs lower input_dir of
           Inl e \<Rightarrow> (start, Some e)
         | Inr raw_text \<Rightarrow>
             if raw_text = [] \<or> length raw_text < 50 then (start @ [Print CriticalNoText], None)
             else
               (let analysis = [Print (Extracted (length raw_text)), Print StepAnalysis,
                                CallAnalyze raw_text]
                in case analyze_data invoke loads raw_text of
                     None \<Rightarrow> (start @ analysis @ [Print CriticalAgentFailed], None)
                   | Some structured_data \<Rightarrow>
                       if truthy structured_data then
                         (case structured_data of
                            JObj kvs \<Rightarrow>
                              (let codename = (case map_of kvs ''company_codename'' of
                                                 Some v \<Rightarrow> v | None \<Rightarrow> JStr ''Unknown Project'');
                                   company_name = (case map_of kvs ''company_name'' of
                                                     Some v \<Rightarrow> v | None \<Rightarrow> JStr company_folder_name)
                               in (start @ analysis @ [Print (AnalysisComplete codename)]
                                     @ web_and_generate web create kvs company_name raw_text
                                         output_pptx_path,
                                   None))
                          | _ \<Rightarrow> (start @ analysis, Some AttributeError))
                       else (start @ analysis @ [Print CriticalAgentFailed], None)))"

section \<open>Test doubles\<close>

text \<open>
  Deterministic stand-ins for the model call and for \<open>json.loads\<close>, used to run the
  definitions on concrete inputs. \<open>loads_stub\<close> agrees with \<open>json.loads\<close> on the texts
  it is applied to below: the four listed documents are parsed, and the other sample
  texts are not JSON documents.
\<close>

definition stub_reply :: "string \<Rightarrow> string \<Rightarrow> error + string" where
  "stub_reply content raw_text = Inr content"

definition stub_raise :: "error \<Rightarrow> string \<Rightarrow> error + string" where
  "stub_raise e raw_text = Inl e"




text \<open>The double quote, and two sample JSON documents that contain it.\<close>

definition dq :: string where
  "dq = [CHR 0x22]"

definition six_queries_text :: string where
  "six_queries_text =
     ''['' @ dq @ ''q1'' @ dq @ '', '' @ dq @ ''q2'' @ dq @ '', '' @ dq @ ''q3'' @ dq @ '', ''
       @ dq @ ''q4'' @ dq @ '', '' @ dq @ ''q5'' @ dq @ '', '' @ dq @ ''q6'' @ dq @ '']''"

definition atlas_record_text :: string where
  "atlas_record_text =
     ''{'' @ dq @ ''company_name'' @ dq @ '': '' @ dq @ ''Acme'' @ dq @ '', ''
       @ dq @ ''company_codename'' @ dq @ '': '' @ dq @ ''Project Atlas'' @ dq @ ''}''"

definition loads_stub :: "string \<Rightarrow> error + json" where
  "loads_stub s =
     (if s = ''{}'' then Inr (JObj [])
      else if s = ''[]'' then Inr (JArr [])
      else if s = six_queries_text
        then Inr (JArr [JStr ''q1'', JStr ''q2'', JStr ''q3'', JStr ''q4'', JStr ''q5'', JStr ''q6''])
      else if s = atlas_record_text
        then Inr (JObj [(''company_name'', JStr ''Acme''),
                        (''company_codename'', JStr ''Project Atlas'')])
      else Inl JSONDecodeError)"



fun is_string :: "json \<Rightarrow> bool" where
  "is_string (JStr s) = True"
| "is_string _ = False"






section \<open>Properties of the Extractor\<close>

lemma clean_json_string_plain:
  "clean_json_string ''not json'' = ''not json''"
  by (simp add: clean_json_string_def strip_def is_space_def)

lemma clean_json_string_fenced:
  "clean_json_string ''```json{}``` '' = ''{}''"
  by (simp add: clean_json_string_def strip_def is_space_def)

lemma loads_stub_not_json:
  "loads_stub ''not json'' = Inl JSONDecodeError"
  by (simp add: loads_stub_def six_queries_text_def atlas_record_text_def dq_def)

lemma analyze_data_parse_failure:
  assumes "invoke raw_text = Inr content"
    and "loads (clean_json_string content) = Inl JSONDecodeError"
  shows "analyze_data invoke loads raw_text = Some (JObj placeholder_record)"
  using assms by (simp add: analyze_data_def analyze_handler_def)

lemma analyze_data_call_failure_other:
  assumes "invoke raw_text = Inl e" and "e \<noteq> JSONDecodeError"
  shows "analyze_data invoke loads raw_text = None"
  using assms by (simp add: analyze_data_def analyze_handler_def)

lemma analyze_data_loads_other_error:
  assumes "invoke raw_text = Inr content"
    and "loads (clean_json_string content) = Inl e" and "e \<noteq> JSONDecodeError"
  shows "analyze_data invoke loads raw_text = None"
  using assms by (simp add: analyze_data_def analyze_handler_def)

lemma analyze_data_valid_dict:
  assumes "invoke raw_text = Inr content"
    and "loads (clean_json_string content) = Inr (JObj kvs)"
  shows "analyze_data invoke loads raw_text = Some (JObj kvs)"
  using assms by (simp add: analyze_data_def)

text \<open>
  Claim C1: a reply whose cleaned text is not valid JSON gives the placeholder, and every
  exception raised by the model invocation gives \<open>None\<close>, never the placeholder. The
  code does not keep this: the \<open>try\<close> block of \<open>analyze_data\<close> holds the invocation
  as well as the parsing, and its first clause catches \<open>json.JSONDecodeError\<close> wherever
  it was raised. At an invocation that raises an exception of that class the result is the
  placeholder, under the message that the output of the model was not valid JSON, while
  every other failure of the invocation reaches the second clause and gives \<open>None\<close>
  (\<open>analyze_data_call_failure_other\<close>).
\<close>

theorem analyze_data_call_raises_decode_error:
  "analyze_data (stub_raise JSONDecodeError) loads_stub ''raw text'' = Some (JObj placeholder_record)
   \<and> analyze_data (stub_raise JSONDecodeError) loads_stub ''raw text'' \<noteq> None"
  by (simp add: analyze_data_def analyze_handler_def stub_raise_def)

text \<open>
  Claim C2, as stated, says that \<open>business_overview\<close> of the placeholder is the empty
  list. The placeholder of the source has one entry there.
\<close>

theorem placeholder_business_overview_counterexample:
  "analyze_data (stub_reply ''not json'') loads_stub ''raw text'' = Some (JObj placeholder_record)
   \<and> dict_get (JObj placeholder_record) ''business_overview'' = Some (JArr [JStr ''AI could not process data.''])
   \<and> dict_get (JObj placeholder_record) ''business_overview'' \<noteq> Some (JArr [])"
  by (simp add: analyze_data_def analyze_handler_def stub_reply_def loads_stub_not_json
      clean_json_string_plain placeholder_record_def)

text \<open>
  Claim C2, amended: on a JSON parsing failure the record returned has the codename
  \<open>Project Error\<close>, the one-entry list \<open>["AI could not process data."]\<close> as
  \<open>business_overview\<close>, empty lists as \<open>product_portfolio\<close>, \<open>applications\<close> and
  \<open>investment_highlights\<close>, and the empty mapping as \<open>financials\<close>.
\<close>

theorem placeholder_record_fields:
  assumes "invoke raw_text = Inr content"
    and "loads (clean_json_string content) = Inl JSONDecodeError"
  shows "\<exists>r. analyze_data invoke loads raw_text = Some r
     \<and> dict_get r ''company_codename'' = Some (JStr ''Project Error'')
     \<and> dict_get r ''business_overview'' = Some (JArr [JStr ''AI could not process data.''])
     \<and> dict_get r ''product_portfolio'' = Some (JArr [])
     \<and> dict_get r ''applications'' = Some (JArr [])
     \<and> dict_get r ''investment_highlights'' = Some (JArr [])
     \<and> dict_get r ''financials'' = Some (JObj [])"
  using assms by (simp add: analyze_data_def analyze_handler_def placeholder_record_def)

theorem placeholder_record_fields_witness:
  "stub_reply ''not json'' ''raw text'' = Inr ''not json''
   \<and> loads_stub (clean_json_string ''not json'') = Inl JSONDecodeError
   \<and> (\<exists>r. analyze_data (stub_reply ''not json'') loads_stub ''raw text'' = Some r
     \<and> dict_get r ''company_codename'' = Some (JStr ''Project Error'')
     \<and> dict_get r ''business_overview'' = Some (JArr [JStr ''AI could not process data.''])
     \<and> dict_get r ''product_portfolio'' = Some (JArr [])
     \<and> dict_get r ''applications'' = Some (JArr [])
     \<and> dict_get r ''investment_highlights'' = Some (JArr [])
     \<and> dict_get r ''financials'' = Some (JObj []))"
proof -
  have h1: "stub_reply ''not json'' ''raw text'' = Inr ''not json''"
    by (simp add: stub_reply_def)
  have h2: "loads_stub (clean_json_string ''not json'') = Inl JSONDecodeError"
    by (simp add: loads_stub_not_json clean_json_string_plain)
  show ?thesis
    using h1 h2
      placeholder_record_fields [of "stub_reply ''not json''" "''raw text''" "''not json''" loads_stub]
    by blast
qed

section \<open>Properties of the Generator\<close>













lemma str_nat_1: "str_nat 1 = ''1''" by (simp add: str_nat.simps)















section \<open>Properties of the Ingestor\<close>







lemma ingest_no_entries:
  assumes "path_exists fs folder_path" and "listdir fs folder_path = Inr []"
  shows "ingest_company_data fs lower folder_path = Inr ''Warning: No files found in this folder.''"
  using assms by (simp add: ingest_company_data_def)

lemma ingest_hidden_fold:
  assumes "list_all (prefix ''.'') files"
  shows "foldl (\<lambda>combined_text filename. ingest_file fs lower folder_path filename combined_text)
           acc files = acc"
  using assms by (induction files arbitrary: acc) (simp_all add: ingest_file_def)

lemma ingest_hidden_only:
  assumes "path_exists fs folder_path" and "listdir fs folder_path = Inr files"
    and "files \<noteq> []" and "list_all (prefix ''.'') files"
  shows "ingest_company_data fs lower folder_path = Inr []"
  using assms by (simp add: ingest_company_data_def ingest_hidden_fold)


lemma ingest_missing_folder:
  assumes "\<not> path_exists fs folder_path"
  shows "ingest_company_data fs lower folder_path = Inr (''Error: Folder not found at '' @ folder_path)"
  using assms by (simp add: ingest_company_data_def)

lemma missing_folder_signal_length:
  "length (''Error: Folder not found at '' @ folder_path) < 50 \<longleftrightarrow> length folder_path < 23"
  by auto

section \<open>Properties of the orchestrator\<close>

lemma run_pipeline_short_corpus:
  assumes "ingest_company_data fs lower (path_join base_dir [''data'', ''input'', folder]) = Inr raw_text"
    and "raw_text = [] \<or> length raw_text < 50"
  shows "run_pipeline fs lower invoke loads web create base_dir folder
     = ([Print (Starting folder),
         Print Separator,
         Print (StepIngesting (path_join base_dir [''data'', ''input'', folder])),
         CallIngest (path_join base_dir [''data'', ''input'', folder]),
         Print CriticalNoText], None)"
  using assms by (auto simp: run_pipeline_def Let_def)









section \<open>Properties of the web enrichment\<close>

lemma fallback_nonempty: "generate_fallback_queries st \<noteq> []"
  by (simp add: generate_fallback_queries_def)

lemma fallback_length: "length (generate_fallback_queries st) \<le> 2"
  by (simp add: generate_fallback_queries_def)

lemma fallback_unknown:
  "st \<notin> {''images'', ''certifications'', ''business_info'', ''partners''} \<Longrightarrow>
   generate_fallback_queries st = [''general search'']"
  by (simp add: generate_fallback_queries_def)

lemma truncated_data_take:
  "(if length cd > 2000 then take 2000 cd else cd) = take 2000 (cd :: string)"
  by simp

lemma gsq_unfold:
  "generate_search_queries invoke loads cn cd st =
     (case invoke cn (take 2000 cd) st of
        Inl e \<Rightarrow> map JStr (generate_fallback_queries st)
      | Inr content \<Rightarrow>
          (case loads (clean_json_string content) of
             Inl e \<Rightarrow> map JStr (generate_fallback_queries st)
           | Inr queries \<Rightarrow>
               (case queries of
                  JArr qs \<Rightarrow>
                    if length qs > 0 then take 5 qs
                    else map JStr (generate_fallback_queries st)
                | _ \<Rightarrow> map JStr (generate_fallback_queries st))))"
  unfolding generate_search_queries_def Let_def truncated_data_take ..

lemma gsq_cases:
  "generate_search_queries invoke loads cn cd st = map JStr (generate_fallback_queries st) \<or>
   (\<exists>content qs. invoke cn (take 2000 cd) st = Inr content \<and>
      loads (clean_json_string content) = Inr (JArr qs) \<and> qs \<noteq> [] \<and>
      generate_search_queries invoke loads cn cd st = take 5 qs)"
  by (auto simp: gsq_unfold split: sum.splits json.splits)

lemma gsq_nonempty: "generate_search_queries invoke loads cn cd st \<noteq> []"
  using gsq_cases [of invoke loads cn cd st] fallback_nonempty [of st] by auto

lemma gsq_length: "length (generate_search_queries invoke loads cn cd st) \<le> 5"
  using gsq_cases [of invoke loads cn cd st] fallback_length [of st] by auto

lemma generate_search_queries_branches:
  "generate_search_queries invoke loads cn cd st \<noteq> []
   \<and> length (generate_search_queries invoke loads cn cd st) \<le> 5
   \<and> (\<forall>content qs. invoke cn (take 2000 cd) st = Inr content \<longrightarrow>
         loads (clean_json_string content) = Inr (JArr qs) \<longrightarrow> qs \<noteq> [] \<longrightarrow>
         generate_search_queries invoke loads cn cd st = take 5 qs)
   \<and> (\<forall>content e. invoke cn (take 2000 cd) st = Inr content \<longrightarrow>
         loads (clean_json_string content) = Inl e \<longrightarrow>
         generate_search_queries invoke loads cn cd st = map JStr (generate_fallback_queries st))
   \<and> (\<forall>content v. invoke cn (take 2000 cd) st = Inr content \<longrightarrow>
         loads (clean_json_string content) = Inr v \<longrightarrow> (\<forall>qs. v = JArr qs \<longrightarrow> qs = []) \<longrightarrow>
         generate_search_queries invoke loads cn cd st = map JStr (generate_fallback_queries st))
   \<and> (\<forall>e. invoke cn (take 2000 cd) st = Inl e \<longrightarrow>
         generate_search_queries invoke loads cn cd st = map JStr (generate_fallback_queries st))
   \<and> generate_fallback_queries st \<noteq> []
   \<and> (st \<notin> {''images'', ''certifications'', ''business_info'', ''partners''} \<longrightarrow>
         generate_fallback_queries st = [''general search''])"
proof (intro conjI allI impI)
  show "generate_search_queries invoke loads cn cd st \<noteq> []" by (rule gsq_nonempty)
  show "length (generate_search_queries invoke loads cn cd st) \<le> 5" by (rule gsq_length)
  show "generate_fallback_queries st \<noteq> []" by (rule fallback_nonempty)
next
  fix content qs
  assume "invoke cn (take 2000 cd) st = Inr content"
    "loads (clean_json_string content) = Inr (JArr qs)" "qs \<noteq> []"
  then show "generate_search_queries invoke loads cn cd st = take 5 qs"
    by (simp add: gsq_unfold)
next
  fix content e
  assume "invoke cn (take 2000 cd) st = Inr content" "loads (clean_json_string content) = Inl e"
  then show "generate_search_queries invoke loads cn cd st = map JStr (generate_fallback_queries st)"
    by (simp add: gsq_unfold)
next
  fix content v
  assume "invoke cn (take 2000 cd) st = Inr content" "loads (clean_json_string content) = Inr v"
    "\<forall>qs. v = JArr qs \<longrightarrow> qs = []"
  then show "generate_search_queries invoke loads cn cd st = map JStr (generate_fallback_queries st)"
    by (cases v) (simp_all add: gsq_unfold)
next
  fix e
  assume "invoke cn (take 2000 cd) st = Inl e"
  then show "generate_search_queries invoke loads cn cd st = map JStr (generate_fallback_queries st)"
    by (simp add: gsq_unfold)
next
  assume "st \<notin> {''images'', ''certifications'', ''business_info'', ''partners''}"
  then show "generate_fallback_queries st = [''general search'']" by (rule fallback_unknown)
qed



lemma fallback_strings: "list_all is_string (map JStr qs)"
  by (induction qs) simp_all

lemma generate_search_queries_strings:
  assumes "\<forall>content qs. invoke cn (take 2000 cd) st = Inr content \<longrightarrow>
             loads (clean_json_string content) = Inr (JArr qs) \<longrightarrow> list_all is_string qs"
  shows "list_all is_string (generate_search_queries invoke loads cn cd st)"
proof -
  from gsq_cases [of invoke loads cn cd st] show ?thesis
  proof
    assume "generate_search_queries invoke loads cn cd st = map JStr (generate_fallback_queries st)"
    then show ?thesis by (simp add: fallback_strings)
  next
    assume "\<exists>content qs. invoke cn (take 2000 cd) st = Inr content \<and>
      loads (clean_json_string content) = Inr (JArr qs) \<and> qs \<noteq> [] \<and>
      generate_search_queries invoke loads cn cd st = take 5 qs"
    then obtain content qs where c: "invoke cn (take 2000 cd) st = Inr content"
      "loads (clean_json_string content) = Inr (JArr qs)"
      "generate_search_queries invoke loads cn cd st = take 5 qs" by blast
    with assms have "list_all is_string qs" by blast
    then have "list_all is_string (take 5 qs)"
      by (auto simp: list_all_iff dest: in_set_takeD)
    with c(3) show ?thesis by simp
  qed
qed











end
